theory Spec2Isabelle
  imports Complex_Main
begin

section \<open>JavaScript values used by the player\<close>

text \<open>
  A JavaScript number is an IEEE 754 binary64 value: \<open>NaN\<close>, an infinity, or a finite
  number, held here as the real it denotes. The sign of a zero is not kept (no operation
  of the player tells \<open>-0\<close> from \<open>0\<close>: the comparison does not).
\<close>

datatype jsnum = NaN | Fin real | PosInf | NegInf

subsection \<open>Rounding to binary64\<close>

text \<open>
  The result of an arithmetic operation and of reading a decimal literal is the exact
  value rounded to the nearest binary64 number, ties to the even significand; a result
  whose rounding reaches \<open>2 ^ 1024\<close> is an infinity.

  For \<open>a > 0\<close>, \<open>binade a\<close> is the exponent \<open>e\<close> with \<open>2 ^ e \<le> a < 2 ^ (e + 1)\<close>,
  found by halving or doubling, and kept within \<open>-1022\<close> (below it the numbers are
  subnormal and share the spacing of that binade) and \<open>1024\<close> (from there on the result
  overflows). A binary64 number of binade \<open>e\<close> is a multiple of \<open>2 ^ (e - 52)\<close>;
  \<open>nearest a\<close> is the multiple next to \<open>a\<close>.
\<close>

fun halvings :: "nat \<Rightarrow> real \<Rightarrow> nat" where
  "halvings 0 a = 0"
| "halvings (Suc k) a = (if a < 2 then 0 else Suc (halvings k (a / 2)))"

fun doublings :: "nat \<Rightarrow> real \<Rightarrow> nat" where
  "doublings 0 a = 0"
| "doublings (Suc k) a = (if 1 \<le> a then 0 else Suc (doublings k (2 * a)))"

definition binade :: "real \<Rightarrow> int" where
  "binade a = (if 1 \<le> a then int (halvings 1024 a) else - int (doublings 1022 a))"

definition roundHalfEven :: "real \<Rightarrow> int" where
  "roundHalfEven q =
     (if q - of_int \<lfloor>q\<rfloor> < 1 / 2 then \<lfloor>q\<rfloor>
      else if 1 / 2 < q - of_int \<lfloor>q\<rfloor> then \<lfloor>q\<rfloor> + 1
      else if even \<lfloor>q\<rfloor> then \<lfloor>q\<rfloor> else \<lfloor>q\<rfloor> + 1)"

definition nearest :: "real \<Rightarrow> real" where
  "nearest a = of_int (roundHalfEven (a * 2 powi (52 - binade a))) * 2 powi (binade a - 52)"

definition round64 :: "real \<Rightarrow> jsnum" where
  "round64 x =
     (if x = 0 then Fin 0
      else if 2 ^ 1024 \<le> nearest \<bar>x\<bar> then (if x < 0 then NegInf else PosInf)
      else Fin (if x < 0 then - nearest \<bar>x\<bar> else nearest \<bar>x\<bar>))"

subsection \<open>Operations\<close>

text \<open>The binary \<open>-\<close> of JavaScript on numbers: the exact difference, rounded.\<close>

fun jsnum_minus :: "jsnum \<Rightarrow> jsnum \<Rightarrow> jsnum" where
  "jsnum_minus NaN _ = NaN"
| "jsnum_minus _ NaN = NaN"
| "jsnum_minus (Fin a) (Fin b) = round64 (a - b)"
| "jsnum_minus (Fin a) PosInf = NegInf"
| "jsnum_minus (Fin a) NegInf = PosInf"
| "jsnum_minus PosInf PosInf = NaN"
| "jsnum_minus PosInf _ = PosInf"
| "jsnum_minus NegInf NegInf = NaN"
| "jsnum_minus NegInf _ = NegInf"

text \<open>\<open>Math.abs\<close>.\<close>

fun Math_abs :: "jsnum \<Rightarrow> jsnum" where
  "Math_abs NaN = NaN"
| "Math_abs (Fin a) = Fin \<bar>a\<bar>"
| "Math_abs PosInf = PosInf"
| "Math_abs NegInf = PosInf"

text \<open>The relational operator \<open>a > b\<close> on numbers: false as soon as one side is \<open>NaN\<close>.\<close>

fun jsnum_gt :: "jsnum \<Rightarrow> jsnum \<Rightarrow> bool" where
  "jsnum_gt NaN _ = False"
| "jsnum_gt _ NaN = False"
| "jsnum_gt (Fin a) (Fin b) = (b < a)"
| "jsnum_gt (Fin a) PosInf = False"
| "jsnum_gt (Fin a) NegInf = True"
| "jsnum_gt PosInf PosInf = False"
| "jsnum_gt PosInf _ = True"
| "jsnum_gt NegInf _ = False"

subsection \<open>parseFloat\<close>

text \<open>
  The global \<open>parseFloat\<close> of ECMAScript. A string of the model is a JavaScript string
  whose code units are below 256, one \<open>char\<close> for each code unit; the white space among
  these is the six ASCII characters and the no-break space. Leading white space is
  skipped, then the longest prefix that is a \<open>StrDecimalLiteral\<close> is read (an optional
  sign, then \<open>Infinity\<close>, or digits with an optional fraction and an optional exponent);
  when no prefix is one, the result is \<open>NaN\<close>. The result is the value of the literal
  rounded to binary64.
\<close>

definition isWhiteSpace :: "char \<Rightarrow> bool" where
  "isWhiteSpace c =
     (c \<in> set [CHR '' '', CHR 0x09, CHR 0x0A, CHR 0x0B, CHR 0x0C, CHR 0x0D, CHR 0xA0])"

definition isDigit :: "char \<Rightarrow> bool" where
  "isDigit c = (c \<in> set ''0123456789'')"

text \<open>The value of a digit is its position in \<open>0123456789\<close>.\<close>

definition digitVal :: "char \<Rightarrow> nat" where
  "digitVal c = length (takeWhile (\<lambda>d. d \<noteq> c) ''0123456789'')"

definition digitsVal :: "string \<Rightarrow> nat" where
  "digitsVal ds = foldl (\<lambda>a c. 10 * a + digitVal c) 0 ds"

text \<open>
  The exponent part at the head of the rest: \<open>e\<close> or \<open>E\<close>, an optional sign and at
  least one digit; anything else is no exponent (the literal ends before it).
\<close>

definition exponentPart :: "string \<Rightarrow> int" where
  "exponentPart r =
     (case r of
        [] \<Rightarrow> 0
      | c # r1 \<Rightarrow>
          if c = CHR ''e'' \<or> c = CHR ''E'' then
            (case r1 of
               [] \<Rightarrow> 0
             | d # r2 \<Rightarrow>
                 if d = CHR ''-'' then - int (digitsVal (takeWhile isDigit r2))
                 else if d = CHR ''+'' then int (digitsVal (takeWhile isDigit r2))
                 else int (digitsVal (takeWhile isDigit r1)))
          else 0)"

definition scale10 :: "real \<Rightarrow> int \<Rightarrow> real" where
  "scale10 m e = (if 0 \<le> e then m * 10 ^ nat e else m / 10 ^ nat (- e))"

definition parseFloat :: "string \<Rightarrow> jsnum" where
  "parseFloat input =
     (let trimmed = dropWhile isWhiteSpace input;
          neg = (take 1 trimmed = ''-'');
          u = (if take 1 trimmed = ''-'' \<or> take 1 trimmed = ''+'' then drop 1 trimmed else trimmed);
          ip = takeWhile isDigit u;
          r1 = dropWhile isDigit u;
          dot = (take 1 r1 = ''.'');
          fp = (if dot then takeWhile isDigit (drop 1 r1) else []);
          r2 = (if dot then dropWhile isDigit (drop 1 r1) else r1);
          m = scale10 (real (digitsVal ip) + real (digitsVal fp) / 10 ^ length fp) (exponentPart r2)
      in if ip = [] \<and> fp = [] then
           (if take 8 u = ''Infinity'' then (if neg then NegInf else PosInf) else NaN)
         else round64 (if neg then - m else m))"

section \<open>The playback engine (YT.Player)\<close>

text \<open>
  The engine is an external collaborator. The model keeps what the player code reads from
  it (\<open>getCurrentTime()\<close>, \<open>getPlayerState()\<close>) and records, in order, the commands the
  player code issues to it. How the engine reacts to a command is its own business: the
  readings are not changed by a command. In every handler below each reading precedes the
  first command.
\<close>

datatype PlayerState = UNSTARTED | ENDED | PLAYING | PAUSED | BUFFERING | CUED

datatype yt_call = SeekTo jsnum bool | PlayVideo | PauseVideo | AddEventListener string

record YT_Player =
  getCurrentTime :: jsnum
  getPlayerState :: PlayerState
  calls :: "yt_call list"

definition seekTo :: "jsnum \<Rightarrow> bool \<Rightarrow> YT_Player \<Rightarrow> YT_Player" where
  "seekTo seconds allowSeekAhead p = p\<lparr>calls := calls p @ [SeekTo seconds allowSeekAhead]\<rparr>"

definition playVideo :: "YT_Player \<Rightarrow> YT_Player" where
  "playVideo p = p\<lparr>calls := calls p @ [PlayVideo]\<rparr>"

definition pauseVideo :: "YT_Player \<Rightarrow> YT_Player" where
  "pauseVideo p = p\<lparr>calls := calls p @ [PauseVideo]\<rparr>"

definition addEventListener :: "string \<Rightarrow> YT_Player \<Rightarrow> YT_Player" where
  "addEventListener event p = p\<lparr>calls := calls p @ [AddEventListener event]\<rparr>"

section \<open>Data model\<close>

text \<open>
  Modelled from the spec: the enumeration \<open>Message\<close> of \<open>enum/message\<close>, which is not
  among the sources. Its members are the message kinds of section 4.1; the player and the
  socket wrapper use them by name only.
\<close>

datatype Message =
    PLAY | PAUSE | SEEK | PLAY_VIDEO | ADD_TO_QUEUE | REMOVE_FROM_QUEUE | QUEUE | AUTOPLAY
  | CLIENTS | CLIENT_CONNECT | CLIENT_DISCONNECT | REACTION | PROMOTE | UNPROMOTE

record Video =
  videoId :: string
  title :: string
  byline :: string

text \<open>
  Modelled from the spec: the class \<open>Client\<close> of \<open>model/client\<close>, which is not among the
  sources (section 3). The player reads \<open>socketId\<close> only.
\<close>

record Client =
  socketId :: string
  promoted :: bool
  displayName :: "string option"

record QueueMessageData =
  video :: "Video option"
  videos :: "Video list"

datatype error = SyntaxError | TypeError

text \<open>What \<open>sendWsMessage\<close> is given as \<open>data\<close>; \<open>TimeData t\<close> is \<open>t.toString()\<close>.\<close>

datatype Payload = TimeData jsnum | StringData string | VideoData Video | BoolData bool

text \<open>
  The socket: the address \<open>io\<close> was called with, and the frames sent on it, oldest first.
\<close>

record Socket =
  url :: string
  sent :: "(Message \<times> Payload) list"

definition io :: "string \<Rightarrow> Socket" where
  "io address = \<lparr>url = address, sent = []\<rparr>"

record PlayerOptions =
  protocol :: string
  host :: string
  port :: string

text \<open>
  One child of the queue container \<open>queueItemsElement\<close>: the attributes \<open>videoId\<close> and
  \<open>selected\<close> that the player's selectors read, and the two texts.
\<close>

record QueueElement =
  attr_videoId :: string
  attr_selected :: bool
  text_title :: string
  text_byline :: string

text \<open>
  The room info panel: its description (\<open>Not connected\<close>, or \<open>Connected (n)\<close>), the
  participant entries under \<open>#items\<close>, and the state of the \<open>#autoplay\<close> toggle
  (\<open>None\<close> until the player sets it).
\<close>

datatype Description = NotConnected | Connected nat

record RoomInfo =
  description :: Description
  items :: "Client list"
  autoplayToggle :: "bool option"

text \<open>
  The query string of a \<open>Location\<close>, as far as the player reads it: the parameter \<open>v\<close>
  and the parameter named by the constant \<open>SessionId\<close>.
\<close>

record Location =
  param_v :: "string option"
  param_SessionId :: "string option"

datatype Schedule = SeekSchedule | UrlChangeSchedule | QueueStoreSchedule

text \<open>
  The fields of the class \<open>Player\<close>, followed by the part of the page the player reads and
  writes: the location, the engine \<open>YTUtil.getPlayer()\<close> finds, the navigations asked of
  the host application, whether the up-next and related panels are still there, the
  schedules started, query strings assigned to \<open>window.location.search\<close> (each reloads
  the page), and what was written to \<open>console.error\<close>.

  \<open>ytPlayer\<close> is \<open>null\<close> until \<open>create\<close> has run, and \<open>create\<close> tests it. The fields
  \<open>sessionId\<close>, \<open>ws\<close>, \<open>queueItemsElement\<close> and \<open>roomInfoElement\<close> are assigned by
  \<open>create\<close> before it registers any handler that reads them; the model gives them a
  value throughout and covers the handlers from there on.
\<close>

record Player =
  sessionId :: string
  ytPlayer :: "YT_Player option"
  ws :: Socket
  options :: PlayerOptions
  queueItemsElement :: "QueueElement list"
  roomInfoElement :: RoomInfo
  autoplay :: bool
  clients :: "Client list"
  location :: Location
  pagePlayer :: "YT_Player option"
  navigations :: "(string \<times> string) list"
  upnext :: bool
  related :: bool
  schedules :: "Schedule list"
  assignedSearch :: "Location list"
  console :: "error list"

text \<open>
  The data of an inbound \<open>REMOVE_FROM_QUEUE\<close>. On the wire it is the videoId, a string
  (section 4.1, and what the client's own request sends, see \<open>queueElementDeleteHandler\<close>);
  the parameter of \<open>removeFromQueue\<close> is annotated \<open>Video\<close>, and the annotation is
  gone at run time. Both shapes are kept.
\<close>

datatype RemoveData = IdString string | VideoObject Video

text \<open>
  An inbound text frame, as \<open>onWsMessage\<close> sees it after \<open>JSON.parse\<close>: the parse throws
  (\<open>Unparseable\<close>), or yields \<open>null\<close>, whose property \<open>action\<close> cannot be read
  (\<open>JsonNull\<close>), or yields a value with its \<open>action\<close> and \<open>data\<close>. The data of each
  action has the shape section 4.1 gives it, which is the type of the parameter it is
  passed to, but for \<open>REMOVE_FROM_QUEUE\<close> (see above); \<open>OtherMsg\<close> is every frame
  whose action is none of the eleven labels of the switch (\<open>REACTION\<close>, \<open>PROMOTE\<close>,
  \<open>UNPROMOTE\<close>, or no \<open>Message\<close> at all).
\<close>

datatype Frame =
    PlayMsg string
  | PauseMsg string
  | SeekMsg string
  | AutoplayMsg bool
  | PlayVideoMsg string
  | QueueMsg QueueMessageData
  | AddToQueueMsg Video
  | RemoveFromQueueMsg RemoveData
  | ClientsMsg "Client list"
  | ClientConnectMsg Client
  | ClientDisconnectMsg string
  | OtherMsg

datatype Inbound = Unparseable | JsonNull | Json Frame

section \<open>The operations of the class Player\<close>

subsection \<open>Sending\<close>

definition sendWsMessage :: "Message \<Rightarrow> Payload \<Rightarrow> Player \<Rightarrow> Player" where
  "sendWsMessage type data s = s\<lparr>ws := (ws s)\<lparr>sent := sent (ws s) @ [(type, data)]\<rparr>\<rparr>"

text \<open>Reading a property of \<open>this.ytPlayer\<close> while it is \<open>null\<close> throws a \<open>TypeError\<close>.\<close>

definition sendWsTimeMessage :: "Message \<Rightarrow> Player \<Rightarrow> error + Player" where
  "sendWsTimeMessage type s =
     (case ytPlayer s of
        None \<Rightarrow> Inl TypeError
      | Some p \<Rightarrow> Inr (sendWsMessage type (TimeData (getCurrentTime p)) s))"

definition sendWsRequestToAddToQueue :: "Video \<Rightarrow> Player \<Rightarrow> Player" where
  "sendWsRequestToAddToQueue vid s = sendWsMessage ADD_TO_QUEUE (VideoData vid) s"

text \<open>The handler that \<open>queueElementDeleteHandler(videoId)\<close> returns, run on the state.\<close>

definition queueElementDeleteHandler :: "string \<Rightarrow> Player \<Rightarrow> Player" where
  "queueElementDeleteHandler vId s = sendWsMessage REMOVE_FROM_QUEUE (StringData vId) s"

subsection \<open>The engine\<close>

text \<open>A command to \<open>this.ytPlayer\<close>; on \<open>null\<close> it throws.\<close>

definition onYtPlayer :: "(YT_Player \<Rightarrow> YT_Player) \<Rightarrow> Player \<Rightarrow> error + Player" where
  "onYtPlayer command s =
     (case ytPlayer s of
        None \<Rightarrow> Inl TypeError
      | Some p \<Rightarrow> Inr (s\<lparr>ytPlayer := Some (command p)\<rparr>))"

definition default_margin :: jsnum where
  "default_margin = Fin 1"

definition syncPlayerTime :: "jsnum \<Rightarrow> jsnum \<Rightarrow> Player \<Rightarrow> error + Player" where
  "syncPlayerTime videoTime margin s =
     (case ytPlayer s of
        None \<Rightarrow> Inl TypeError
      | Some p \<Rightarrow>
          if jsnum_gt (Math_abs (jsnum_minus videoTime (getCurrentTime p))) margin
          then onYtPlayer (seekTo videoTime True) s
          else Inr s)"

subsection \<open>The queue\<close>

text \<open>
  Modelled from the spec: \<open>YTHTMLUtil.injectYtPlaylistPanelVideoRendererElement\<close> of
  \<open>util/yt-html\<close>, which is not among the sources. It appends to the container one
  element for the video, with the \<open>selected\<close> attribute when \<open>selected\<close> is true
  (section 4.3: an added video goes to the end). The click and delete handlers it is given
  are determined by the videoId (\<open>queueElementClickHandler\<close>, \<open>queueElementDeleteHandler\<close>).
\<close>

definition injectYtPlaylistPanelVideoRendererElement ::
  "QueueElement list \<Rightarrow> bool \<Rightarrow> string \<Rightarrow> string \<Rightarrow> string \<Rightarrow> QueueElement list" where
  "injectYtPlaylistPanelVideoRendererElement container sel vId ttl bl =
     container @ [\<lparr>attr_videoId = vId, attr_selected = sel, text_title = ttl, text_byline = bl\<rparr>]"

definition addToQueue :: "Video \<Rightarrow> bool \<Rightarrow> Player \<Rightarrow> Player" where
  "addToQueue vid sel s =
     s\<lparr>queueItemsElement :=
         injectYtPlaylistPanelVideoRendererElement (queueItemsElement s) sel
           (videoId vid) (title vid) (byline vid)\<rparr>"

text \<open>The element that \<open>addToQueue\<close> appends for a video, for use in statements.\<close>

definition element_of :: "Video \<Rightarrow> bool \<Rightarrow> QueueElement" where
  "element_of vid sel =
     \<lparr>attr_videoId = videoId vid, attr_selected = sel, text_title = title vid,
      text_byline = byline vid\<rparr>"

text \<open>
  \<open>populateQueue\<close>: the container is emptied, then every video of the snapshot is added
  in order; the flag is \<open>data.video !== null && video.videoId === data.video.videoId\<close>.
\<close>

definition populateQueue :: "QueueMessageData \<Rightarrow> Player \<Rightarrow> Player" where
  "populateQueue data s =
     foldl (\<lambda>s' vid.
              addToQueue vid
                (case video data of None \<Rightarrow> False | Some cur \<Rightarrow> videoId vid = videoId cur) s')
       (s\<lparr>queueItemsElement := []\<rparr>) (videos data)"

text \<open>
  \<open>removeFromQueue(video)\<close> reads \<open>video.videoId\<close> and puts it into a template
  literal. A string has no property \<open>videoId\<close>: the read yields \<open>undefined\<close>
  (\<open>None\<close>), which the template literal turns into the text \<open>undefined\<close>.
\<close>

definition property_videoId :: "RemoveData \<Rightarrow> string option" where
  "property_videoId data = (case data of IdString _ \<Rightarrow> None | VideoObject vid \<Rightarrow> Some (videoId vid))"

definition template_text :: "string option \<Rightarrow> string" where
  "template_text v = (case v of None \<Rightarrow> ''undefined'' | Some txt \<Rightarrow> txt)"

text \<open>
  jQuery's \<open>find('[videoId="..."]')\<close> selects every element whose attribute has that value
  (for a value without quote or backslash characters, as video ids are), and \<open>remove()\<close>
  removes every selected element.
\<close>

definition removeFromQueue :: "RemoveData \<Rightarrow> Player \<Rightarrow> Player" where
  "removeFromQueue data s =
     s\<lparr>queueItemsElement :=
         filter (\<lambda>e. attr_videoId e \<noteq> template_text (property_videoId data))
           (queueItemsElement s)\<rparr>"

text \<open>
  \<open>selectQueueElement\<close>: \<open>removeAttr('selected')\<close> on all children, then
  \<open>attr('selected', '')\<close> on every element with the videoId.
\<close>

definition selectQueueElement :: "string \<Rightarrow> Player \<Rightarrow> Player" where
  "selectQueueElement vId s =
     s\<lparr>queueItemsElement :=
         map (\<lambda>e. if attr_videoId e = vId then e\<lparr>attr_selected := True\<rparr> else e)
           (map (\<lambda>e. e\<lparr>attr_selected := False\<rparr>) (queueItemsElement s))\<rparr>"

subsection \<open>Navigation\<close>

text \<open>
  Modelled from the spec: the method \<open>onYtNavigate_\<close> of the host application, which is not
  code of the repository (section 6: the host page offers a way to navigate to a different
  video without a full reload). The call is recorded, and the page is then at the watch
  page of the video, with the session parameter that the call passes in \<open>params\<close>. (An Isabelle
  name cannot end in an underscore, hence \<open>onYtNavigate\<close>.)
\<close>

definition onYtNavigate :: "string \<Rightarrow> string \<Rightarrow> Player \<Rightarrow> Player" where
  "onYtNavigate vId session s =
     s\<lparr>navigations := navigations s @ [(vId, session)],
       location := \<lparr>param_v = Some vId, param_SessionId = Some session\<rparr>\<rparr>"

definition removeUpnext :: "Player \<Rightarrow> Player" where
  "removeUpnext s = s\<lparr>upnext := False\<rparr>"

definition removeRelated :: "Player \<Rightarrow> Player" where
  "removeRelated s = s\<lparr>related := False\<rparr>"

definition navigateToVideo :: "string \<Rightarrow> Player \<Rightarrow> Player" where
  "navigateToVideo vId s =
     (let s1 = selectQueueElement vId s;
          currentVideoId = param_v (location s1);
          s2 = (if currentVideoId \<noteq> Some vId then onYtNavigate vId (sessionId s1) s1 else s1)
      in removeRelated (removeUpnext s2))"

text \<open>The handler that \<open>queueElementClickHandler(videoId)\<close> returns, run on the state.\<close>

definition queueElementClickHandler :: "string \<Rightarrow> Player \<Rightarrow> Player" where
  "queueElementClickHandler vId s = navigateToVideo vId s"

text \<open>
  \<open>playNextVideoInQueue\<close>. Elements are named by their position among the children.
  \<open>find('[selected]')\<close> is the selected positions in order and \<open>get(0)\<close> the first of them,
  or \<open>undefined\<close>. jQuery's \<open>index(elem)\<close> with an undefined argument is its no-argument
  form: the position of the first element of the set among its siblings (here 0, the set
  being all the children), and \<open>-1\<close> for an empty set; with an element it is the position
  of the element in the set.
\<close>

definition find_selected :: "QueueElement list \<Rightarrow> nat list" where
  "find_selected children = filter (\<lambda>i. attr_selected (children ! i)) [0..<length children]"

definition get0 :: "'a list \<Rightarrow> 'a option" where
  "get0 xs = (case xs of [] \<Rightarrow> None | x # _ \<Rightarrow> Some x)"

definition index_of :: "QueueElement list \<Rightarrow> nat option \<Rightarrow> int" where
  "index_of children elem =
     (case elem of
        None \<Rightarrow> (if children = [] then - 1 else 0)
      | Some i \<Rightarrow> int i)"

definition playNextVideoInQueue :: "Player \<Rightarrow> Player" where
  "playNextVideoInQueue s =
     (let current = find_selected (queueItemsElement s);
          children = queueItemsElement s;
          index = index_of children (get0 current)
      in if index = int (length children) - 1 then s
         else navigateToVideo (attr_videoId (children ! nat (index + 1))) s)"

subsection \<open>Autoplay\<close>

text \<open>
  Modelled from the spec: \<open>YTHTMLUtil.setPapperToggleButtonState\<close> of \<open>util/yt-html\<close>,
  which is not among the sources. It sets the toggle found under \<open>#autoplay\<close> to the
  given state (section 4.5: the bound indicator follows the flag).
\<close>

definition setPapperToggleButtonState :: "bool \<Rightarrow> RoomInfo \<Rightarrow> RoomInfo" where
  "setPapperToggleButtonState state r = r\<lparr>autoplayToggle := Some state\<rparr>"

definition setAutoplay :: "bool \<Rightarrow> bool \<Rightarrow> Player \<Rightarrow> Player" where
  "setAutoplay a force s =
     (if autoplay s = a \<and> \<not> force then s
      else
        (let s1 = s\<lparr>autoplay := a\<rparr>;
             s2 = s1\<lparr>roomInfoElement := setPapperToggleButtonState a (roomInfoElement s1)\<rparr>
         in sendWsMessage AUTOPLAY (BoolData (autoplay s2)) s2))"

subsection \<open>The roster\<close>

text \<open>
  Modelled from the spec: \<open>YTHTMLUtil.injectYtLiveChatParticipantRenderer\<close> and
  \<open>YTHTMLUtil.changeYtPlaylistPanelRendererDescription\<close> of \<open>util/yt-html\<close>, which is
  not among the sources. The first appends an entry for the client under \<open>#items\<close>, the
  second replaces the description of the panel.
\<close>

definition injectYtLiveChatParticipantRenderer :: "Client \<Rightarrow> RoomInfo \<Rightarrow> RoomInfo" where
  "injectYtLiveChatParticipantRenderer c r = r\<lparr>items := items r @ [c]\<rparr>"

definition changeYtPlaylistPanelRendererDescription :: "Description \<Rightarrow> RoomInfo \<Rightarrow> RoomInfo" where
  "changeYtPlaylistPanelRendererDescription d r = r\<lparr>description := d\<rparr>"

text \<open>
  \<open>addClients\<close>: the socket ids are read once, before the loop; a client whose id is among
  them is skipped. The description is written last, in every case.
\<close>

definition addClients :: "Client list \<Rightarrow> Player \<Rightarrow> Player" where
  "addClients cs s =
     (let socketIds = map socketId (clients s);
          s1 = foldl (\<lambda>s' c.
                 if socketId c \<in> set socketIds then s'
                 else s'\<lparr>roomInfoElement := injectYtLiveChatParticipantRenderer c (roomInfoElement s'),
                         clients := clients s' @ [c]\<rparr>) s cs
      in s1\<lparr>roomInfoElement :=
              changeYtPlaylistPanelRendererDescription (Connected (length (clients s1)))
                (roomInfoElement s1)\<rparr>)"

definition removeClient :: "string \<Rightarrow> Player \<Rightarrow> Player" where
  "removeClient sId s =
     (let s1 = s\<lparr>roomInfoElement :=
                  (roomInfoElement s)\<lparr>items := filter (\<lambda>c. socketId c \<noteq> sId) (items (roomInfoElement s))\<rparr>\<rparr>;
          s2 = s1\<lparr>clients := filter (\<lambda>c. socketId c \<noteq> sId) (clients s1)\<rparr>
      in s2\<lparr>roomInfoElement :=
              changeYtPlaylistPanelRendererDescription (Connected (length (clients s2)))
                (roomInfoElement s2)\<rparr>)"

subsection \<open>The callbacks of the page and of the engine\<close>

text \<open>
  \<open>onUrlChange(o, n)\<close>: when the session parameter was there and is gone, the query string
  of \<open>n\<close> is assigned to \<open>window.location.search\<close> and the handler returns; otherwise a
  video id in \<open>n\<close> is sent as \<open>PLAY_VIDEO\<close>.
\<close>

definition onUrlChange :: "Location \<Rightarrow> Location \<Rightarrow> Player \<Rightarrow> Player" where
  "onUrlChange o_loc n_loc s =
     (if param_SessionId o_loc \<noteq> None \<and> param_SessionId n_loc = None
      then s\<lparr>assignedSearch := assignedSearch s @ [n_loc]\<rparr>
      else
        (case param_v n_loc of
           None \<Rightarrow> s
         | Some vId \<Rightarrow> sendWsMessage PLAY_VIDEO (StringData vId) s))"

text \<open>
  Modelled from the spec: the poll that \<open>ScheduleUtil.startUrlChangeSchedule\<close> of
  \<open>util/schedule\<close> starts, which is not among the sources (section 9: it compares,
  periodically, the previous with the current observation and invokes the callback on a
  change). One run of the poll, \<open>previous\<close> being the location it saw last.
\<close>

definition urlChangeSchedule_run :: "Location \<Rightarrow> Player \<Rightarrow> Player" where
  "urlChangeSchedule_run previous s =
     (if location s = previous then s else onUrlChange previous (location s) s)"

definition onStateChange :: "PlayerState \<Rightarrow> Player \<Rightarrow> error + Player" where
  "onStateChange state s =
     (case state of
        PLAYING \<Rightarrow> sendWsTimeMessage PLAY s
      | PAUSED \<Rightarrow> sendWsTimeMessage PAUSE s
      | ENDED \<Rightarrow> Inr (if autoplay s then playNextVideoInQueue s else s)
      | _ \<Rightarrow> Inr s)"

definition onPlayerSeek :: "Player \<Rightarrow> error + Player" where
  "onPlayerSeek s = sendWsTimeMessage SEEK s"

text \<open>
  \<open>onWsConnected\<close>; \<open>cur\<close> is what \<open>VideoUtil.getCurrentVideo()\<close> returns (\<open>util/video\<close>
  is not among the sources).
\<close>

definition onWsConnected :: "Video \<Rightarrow> Player \<Rightarrow> Player" where
  "onWsConnected cur s =
     (let s1 = sendWsRequestToAddToQueue cur s;
          s2 = sendWsMessage PLAY_VIDEO (StringData (videoId cur)) s1
      in setAutoplay (autoplay s2) True s2)"

subsection \<open>The handler of inbound messages\<close>

text \<open>The \<open>switch\<close> of \<open>onWsMessage\<close>, one equation for each \<open>case\<close>.\<close>

fun switch_command :: "PlayerState \<Rightarrow> Frame \<Rightarrow> Player \<Rightarrow> error + Player" where
  "switch_command playerState (PlayMsg data) s =
     (case syncPlayerTime (parseFloat data) default_margin s of
        Inl e \<Rightarrow> Inl e
      | Inr s1 \<Rightarrow> if playerState = PAUSED then onYtPlayer playVideo s1 else Inr s1)"
| "switch_command playerState (PauseMsg data) s =
     (case syncPlayerTime (parseFloat data) default_margin s of
        Inl e \<Rightarrow> Inl e
      | Inr s1 \<Rightarrow> if playerState = PLAYING then onYtPlayer pauseVideo s1 else Inr s1)"
| "switch_command playerState (SeekMsg data) s = onYtPlayer (seekTo (parseFloat data) True) s"
| "switch_command playerState (AutoplayMsg data) s = Inr (setAutoplay data False s)"
| "switch_command playerState (PlayVideoMsg data) s = Inr (navigateToVideo data s)"
| "switch_command playerState (QueueMsg data) s = Inr (populateQueue data s)"
| "switch_command playerState (AddToQueueMsg data) s = Inr (addToQueue data False s)"
| "switch_command playerState (RemoveFromQueueMsg data) s = Inr (removeFromQueue data s)"
| "switch_command playerState (ClientsMsg data) s = Inr (addClients data s)"
| "switch_command playerState (ClientConnectMsg data) s = Inr (addClients [data] s)"
| "switch_command playerState (ClientDisconnectMsg data) s = Inr (removeClient data s)"
| "switch_command playerState OtherMsg s = Inr s"

text \<open>
  The body of the \<open>try\<close>: \<open>JSON.parse\<close>, the reads of \<open>json.action\<close> and \<open>json.data\<close>,
  the read of the player state, and the switch. Every exception of the model is thrown
  before the first write of the run, so a thrown exception leaves the state as it was.
\<close>

definition onWsMessage_try :: "Inbound \<Rightarrow> Player \<Rightarrow> error + Player" where
  "onWsMessage_try message s =
     (case message of
        Unparseable \<Rightarrow> Inl SyntaxError
      | JsonNull \<Rightarrow> Inl TypeError
      | Json frame \<Rightarrow>
          (case ytPlayer s of
             None \<Rightarrow> Inl TypeError
           | Some p \<Rightarrow> switch_command (getPlayerState p) frame s))"

text \<open>
  \<open>onWsMessage\<close>: the \<open>catch\<close> writes the exception to \<open>console.error\<close>. \<open>Inl e\<close> would be
  an exception \<open>e\<close> that leaves the handler.
\<close>

definition onWsMessage :: "Inbound \<Rightarrow> Player \<Rightarrow> error + Player" where
  "onWsMessage message s =
     (case onWsMessage_try message s of
        Inl e \<Rightarrow> Inr (s\<lparr>console := console s @ [e]\<rparr>)
      | Inr s1 \<Rightarrow> Inr s1)"

subsection \<open>Creation\<close>

definition connectWs :: "string \<Rightarrow> Player \<Rightarrow> Player" where
  "connectWs session s =
     (let s1 = s\<lparr>sessionId := session\<rparr>
      in s1\<lparr>ws := io (protocol (options s1) @ ''://'' @ host (options s1) @ '':'' @
                      port (options s1) @ ''/'' @ session)\<rparr>)"

text \<open>
  \<open>YTUtil.getPlayer()\<close>: the engine of the player element of the page, or \<open>null\<close> when the
  page has no such element.
\<close>

definition getPlayer :: "Player \<Rightarrow> YT_Player option" where
  "getPlayer s = pagePlayer s"

text \<open>
  Modelled from the spec: \<open>YTHTMLUtil.injectEmptyQueueShell\<close> and
  \<open>YTHTMLUtil.injectEmptyRoomInfoShell\<close> of \<open>util/yt-html\<close>, which are not among the
  sources. The first yields a queue panel whose \<open>#items\<close> is empty (section 3: the queue
  is created empty), the second a room info panel with the description it is given and
  no participant.
\<close>

definition injectEmptyQueueShell :: "QueueElement list" where
  "injectEmptyQueueShell = []"

definition injectEmptyRoomInfoShell :: "Description \<Rightarrow> RoomInfo" where
  "injectEmptyRoomInfoShell d = \<lparr>description = d, items = [], autoplayToggle = None\<rparr>"

text \<open>
  \<open>create\<close>. When the page has no player, \<open>this.ytPlayer\<close> is assigned \<open>null\<close> again and
  \<open>addEventListener\<close> throws, out of \<open>create\<close>.
\<close>

definition create :: "string \<Rightarrow> Player \<Rightarrow> error + Player" where
  "create session s =
     (if ytPlayer s \<noteq> None then Inr s
      else
        (case getPlayer s of
           None \<Rightarrow> Inl TypeError
         | Some p \<Rightarrow>
             (let s1 = s\<lparr>ytPlayer := Some (addEventListener ''onStateChange'' p)\<rparr>;
                  s2 = s1\<lparr>queueItemsElement := injectEmptyQueueShell\<rparr>;
                  s3 = s2\<lparr>roomInfoElement := injectEmptyRoomInfoShell NotConnected\<rparr>;
                  s4 = s3\<lparr>schedules := schedules s3 @ [SeekSchedule, UrlChangeSchedule, QueueStoreSchedule]\<rparr>
              in Inr (connectWs session s4))))"

text \<open>
  The \<open>create\<close> of the earlier variant of the class, which the same file holds after the
  current one: it injects the queue panel and constructs the engine itself;
  \<open>constructed\<close> is the object \<open>new unsafeWindow.YT.Player(...)\<close> yields.
\<close>

definition create_earlier :: "YT_Player \<Rightarrow> string \<Rightarrow> string \<Rightarrow> Player \<Rightarrow> Player" where
  "create_earlier constructed vId session s =
     (if ytPlayer s \<noteq> None then s
      else
        (let s1 = s\<lparr>queueItemsElement := injectEmptyQueueShell\<rparr>
         in s1\<lparr>ytPlayer := Some constructed\<rparr>))"

section \<open>Example states\<close>

text \<open>
  A created player in session \<open>s1\<close>, watching video \<open>A\<close> at second 10, paused, with
  autoplay on, an empty queue and an empty roster; nothing has been sent yet.
\<close>

definition example_engine :: YT_Player where
  "example_engine = \<lparr>getCurrentTime = Fin 10, getPlayerState = PAUSED, calls = []\<rparr>"

definition example_player :: Player where
  "example_player =
     \<lparr>sessionId = ''s1'',
      ytPlayer = Some example_engine,
      ws = io ''http://127.0.0.1:8080/s1'',
      options = \<lparr>protocol = ''http'', host = ''127.0.0.1'', port = ''8080''\<rparr>,
      queueItemsElement = [],
      roomInfoElement = injectEmptyRoomInfoShell NotConnected,
      autoplay = True,
      clients = [],
      location = \<lparr>param_v = Some ''A'', param_SessionId = Some ''s1''\<rparr>,
      pagePlayer = Some example_engine,
      navigations = [],
      upnext = True,
      related = True,
      schedules = [SeekSchedule, UrlChangeSchedule, QueueStoreSchedule],
      assignedSearch = [],
      console = []\<rparr>"


definition video_A :: Video where
  "video_A = \<lparr>videoId = ''A'', title = ''first'', byline = ''x''\<rparr>"

definition video_B :: Video where
  "video_B = \<lparr>videoId = ''B'', title = ''second'', byline = ''y''\<rparr>"

definition video_C :: Video where
  "video_C = \<lparr>videoId = ''C'', title = ''third'', byline = ''z''\<rparr>"

definition client_1 :: Client where
  "client_1 = \<lparr>socketId = ''k1'', promoted = False, displayName = None\<rparr>"

text \<open>Queues and a roster on top of the example player, and two queue snapshots.\<close>

definition two_unselected :: Player where
  "two_unselected =
     example_player\<lparr>queueItemsElement := [element_of video_A False, element_of video_B False]\<rparr>"

definition queue_A_B_A :: Player where
  "queue_A_B_A =
     example_player\<lparr>queueItemsElement :=
       [element_of video_A False, element_of video_B False, element_of video_A False]\<rparr>"

definition queue_A_B_C :: Player where
  "queue_A_B_C =
     example_player\<lparr>queueItemsElement :=
       [element_of video_A False, element_of video_B True, element_of video_C False]\<rparr>"

definition one_client :: Player where
  "one_client =
     example_player\<lparr>clients := [client_1],
       roomInfoElement :=
         \<lparr>description = Connected 1, items = [client_1], autoplayToggle = Some True\<rparr>\<rparr>"

text \<open>
  A player just constructed, on a page that has the example engine: \<open>ytPlayer\<close> is
  \<open>null\<close>, no schedule runs and nothing is connected.
\<close>

definition fresh_player :: Player where
  "fresh_player =
     example_player\<lparr>sessionId := [], ytPlayer := None, ws := io [], schedules := []\<rparr>"

definition snapshot_B :: QueueMessageData where
  "snapshot_B = \<lparr>video = Some video_B, videos = [video_A, video_B]\<rparr>"

definition snapshot_absent :: QueueMessageData where
  "snapshot_absent = \<lparr>video = Some video_C, videos = [video_A, video_B]\<rparr>"

section \<open>Evaluation of the examples\<close>

lemmas parseFloat_simps =
  parseFloat_def isWhiteSpace_def isDigit_def digitVal_def digitsVal_def exponentPart_def
  scale10_def Let_def

lemmas handler_simps =
  onWsMessage_def onWsMessage_try_def syncPlayerTime_def onYtPlayer_def default_margin_def
  seekTo_def playVideo_def pauseVideo_def

lemmas example_simps =
  example_player_def example_engine_def video_A_def video_B_def video_C_def element_of_def
  client_1_def io_def injectEmptyRoomInfoShell_def

section \<open>Rounding\<close>

lemma halvings_unfold:
  "halvings k a = (if k = 0 \<or> a < 2 then 0 else Suc (halvings (k - 1) (a / 2)))"
  by (cases k) auto

lemma doublings_unfold:
  "doublings k a = (if k = 0 \<or> 1 \<le> a then 0 else Suc (doublings (k - 1) (2 * a)))"
  by (cases k) auto

lemmas round64_simps = round64_def nearest_def binade_def halvings_unfold doublings_unfold

lemma roundHalfEven_floor:
  "roundHalfEven q = \<lfloor>q\<rfloor> \<or> roundHalfEven q = \<lfloor>q\<rfloor> + 1"
  by (simp add: roundHalfEven_def)

lemma roundHalfEven_nonneg: "0 \<le> q \<Longrightarrow> 0 \<le> roundHalfEven q"
  by (auto simp: roundHalfEven_def)

lemma roundHalfEven_ge:
  assumes "of_int m \<le> q"
  shows "m \<le> roundHalfEven q"
proof -
  from assms have "m \<le> \<lfloor>q\<rfloor>" by (simp add: le_floor_iff)
  with roundHalfEven_floor [of q] show ?thesis by auto
qed

lemma roundHalfEven_le:
  assumes "q \<le> of_int m"
  shows "roundHalfEven q \<le> m"
proof (cases "\<lfloor>q\<rfloor> < m")
  case True
  with roundHalfEven_floor [of q] show ?thesis by auto
next
  case False
  from assms have "\<lfloor>q\<rfloor> \<le> m" by (simp add: floor_le_iff)
  with False have fm: "\<lfloor>q\<rfloor> = m" by simp
  have "of_int \<lfloor>q\<rfloor> \<le> q" by simp
  with fm assms have "q = of_int m" by simp
  then show ?thesis by (simp add: roundHalfEven_def)
qed

text \<open>Rounding goes above an even integer exactly beyond the midpoint after it.\<close>

lemma roundHalfEven_gt_even:
  assumes "even m"
  shows "(m < roundHalfEven q) = (of_int m + 1 / 2 < q)"
proof
  assume gt: "m < roundHalfEven q"
  show "of_int m + 1 / 2 < q"
  proof (rule ccontr)
    assume "\<not> of_int m + 1 / 2 < q"
    then have le: "q \<le> of_int m + 1 / 2" by simp
    then have "q < of_int (m + 1)" by simp
    then have "\<lfloor>q\<rfloor> < m + 1" by (simp only: floor_less_iff)
    then have fl: "\<lfloor>q\<rfloor> \<le> m" by simp
    show False
    proof (cases "\<lfloor>q\<rfloor> < m")
      case True
      with roundHalfEven_floor [of q] gt show False by auto
    next
      case False
      with fl have fm: "\<lfloor>q\<rfloor> = m" by simp
      with le assms have "roundHalfEven q = m"
        by (auto simp: roundHalfEven_def)
      with gt show False by simp
    qed
  qed
next
  assume gt: "of_int m + 1 / 2 < q"
  then have "of_int m \<le> q" by simp
  then have fl: "m \<le> \<lfloor>q\<rfloor>" by (simp add: le_floor_iff)
  show "m < roundHalfEven q"
  proof (cases "m < \<lfloor>q\<rfloor>")
    case True
    with roundHalfEven_floor [of q] show ?thesis by auto
  next
    case False
    with fl have fm: "\<lfloor>q\<rfloor> = m" by simp
    with gt have "roundHalfEven q = m + 1"
      by (auto simp: roundHalfEven_def)
    then show ?thesis by simp
  qed
qed

lemma halvings_small: "a < 2 \<Longrightarrow> halvings k a = 0"
  by (cases k) auto

lemma halvings_lower: "1 \<le> a \<Longrightarrow> 2 ^ halvings k a \<le> a"
proof (induction k arbitrary: a)
  case 0
  then show ?case by simp
next
  case (Suc k)
  show ?case
  proof (cases "a < 2")
    case True
    with Suc.prems show ?thesis by simp
  next
    case False
    then have "1 \<le> a / 2" by simp
    from Suc.IH [OF this] False show ?thesis by simp
  qed
qed

lemma halvings_pos: "2 \<le> a \<Longrightarrow> 0 < k \<Longrightarrow> 0 < halvings k a"
  by (cases k) auto

lemma doublings_upper: "a < 1 \<Longrightarrow> a * 2 ^ doublings k a < 2"
proof (induction k arbitrary: a)
  case 0
  then show ?case by simp
next
  case (Suc k)
  show ?case
  proof (cases "2 * a < 1")
    case True
    from Suc.IH [OF True] Suc.prems show ?thesis by (simp add: mult.assoc mult.commute)
  next
    case False
    then have "doublings k (2 * a) = 0" by (cases k) auto
    with Suc.prems False show ?thesis by simp
  qed
qed

lemma doublings_pos: "a < 1 \<Longrightarrow> 0 < k \<Longrightarrow> 0 < doublings k a"
  by (cases k) auto

lemma two_powi_add: "(2::real) powi m * 2 powi n = 2 powi (m + n)"
  by (simp add: power_int_add)

lemma two_powi_le_one: "k \<le> 0 \<Longrightarrow> (2::real) powi k \<le> 1"
  using one_le_power_int [of "2::real" "- k"] by (simp add: power_int_minus field_simps)

text \<open>
  The rounded value of a positive number is above 1 exactly when the number is above
  \<open>1 + 2\<^sup>-\<^sup>5\<^sup>3\<close>, the midpoint between 1 and the binary64 number after it.
\<close>

lemma nearest_threshold:
  assumes "0 < a"
  shows "(1 < nearest a) = (1 + 1 / 2 ^ 53 < a)"
proof -
  consider "a < 1" | "1 \<le> a" "a < 2" | "2 \<le> a" by linarith
  then show ?thesis
  proof cases
    case 1
    define d where "d = doublings 1022 a"
    have dpos: "0 < d" using 1 by (simp add: d_def doublings_pos)
    have b: "binade a = - int d" using 1 by (simp add: binade_def d_def)
    have "a * 2 powi (int d) < 2" using 1 by (simp add: d_def doublings_upper)
    then have "a * 2 powi (int d) * 2 powi 52 < 2 powi 1 * 2 powi 52"
      by (simp del: power_int_numeral)
    then have "a * (2 powi (int d) * 2 powi 52) < 2 powi 1 * 2 powi 52"
      by (simp only: mult.assoc)
    then have "a * 2 powi (int d + 52) < 2 powi (1 + 52)"
      by (simp only: two_powi_add)
    then have q: "a * 2 powi (52 + int d) \<le> of_int (2 ^ 53)"
      by (simp add: add.commute)
    have "of_int (roundHalfEven (a * 2 powi (52 + int d))) \<le> (2::real) powi 53"
      using roundHalfEven_le [OF q] by (simp add: of_int_le_iff [symmetric] del: of_int_le_iff)
    then have "nearest a \<le> 2 powi 53 * 2 powi (- int d - 52)"
      by (simp add: nearest_def b mult_right_mono del: power_int_numeral)
    also have "\<dots> = 2 powi (1 - int d)"
      by (simp only: two_powi_add) simp
    also have "\<dots> \<le> 1"
      using dpos by (intro two_powi_le_one) simp
    finally have "nearest a \<le> 1" .
    with 1 show ?thesis by simp
  next
    case 2
    have b: "binade a = 0" using 2 by (simp add: binade_def halvings_small)
    have "(1 < nearest a) = (2 ^ 52 < roundHalfEven (a * 2 ^ 52))"
    proof -
      have "(1 < nearest a) = (of_int (2 ^ 52) < (of_int (roundHalfEven (a * 2 ^ 52)) :: real))"
        by (simp add: nearest_def b field_simps)
      then show ?thesis by (simp only: of_int_less_iff)
    qed
    also have "\<dots> = (of_int (2 ^ 52) + 1 / 2 < a * 2 ^ 52)"
      by (rule roundHalfEven_gt_even) simp
    also have "\<dots> = (1 + 1 / 2 ^ 53 < a)"
      by (simp add: field_simps)
    finally show ?thesis .
  next
    case 3
    define h where "h = halvings 1024 a"
    have hpos: "0 < h" using 3 by (simp add: h_def halvings_pos)
    have b: "binade a = int h" using 3 by (simp add: binade_def h_def)
    have "2 powi (int h) \<le> a" using 3 by (simp add: h_def halvings_lower)
    then have "2 powi (int h) * 2 powi (52 - int h) \<le> a * 2 powi (52 - int h)"
      by (simp add: mult_right_mono)
    then have "2 powi (int h + (52 - int h)) \<le> a * 2 powi (52 - int h)"
      by (simp only: two_powi_add)
    then have "of_int (2 ^ 52) \<le> a * 2 powi (52 - int h)" by simp
    from roundHalfEven_ge [OF this]
    have "(2::real) powi 52 \<le> of_int (roundHalfEven (a * 2 powi (52 - int h)))"
      by (simp add: of_int_le_iff [symmetric] del: of_int_le_iff)
    then have "2 powi 52 * 2 powi (int h - 52) \<le> nearest a"
      by (simp add: nearest_def b mult_right_mono del: power_int_numeral)
    then have "2 powi (52 + (int h - 52)) \<le> nearest a"
      by (simp only: two_powi_add)
    then have "2 ^ h \<le> nearest a" by simp
    moreover have "(2::real) \<le> 2 ^ h"
      using hpos by (cases h) simp_all
    ultimately have "2 \<le> nearest a" by simp
    moreover have "1 + 1 / 2 ^ 53 < a" using 3 by simp
    ultimately show ?thesis by simp
  qed
qed

lemma nearest_nonneg: "0 \<le> a \<Longrightarrow> 0 \<le> nearest a"
  by (simp add: nearest_def roundHalfEven_nonneg)

text \<open>Rounding is symmetric about zero.\<close>

lemma Math_abs_round64: "Math_abs (round64 x) = round64 \<bar>x\<bar>"
  by (simp add: round64_def nearest_nonneg)

lemma round64_gt_one:
  assumes "0 \<le> a"
  shows "jsnum_gt (round64 a) (Fin 1) = (1 + 1 / 2 ^ 53 < a)"
proof (cases "a = 0")
  case True
  then show ?thesis by (simp add: round64_def)
next
  case False
  with assms have pos: "0 < a" by simp
  have big: "1 < nearest a" if "2 ^ 1024 \<le> nearest a"
  proof -
    have "(1::real) < 2 ^ 1024" by simp
    then show ?thesis using that by (rule less_le_trans)
  qed
  from pos big show ?thesis
    by (auto simp: round64_def nearest_threshold simp del: power_numeral)
qed

text \<open>
  The test of \<open>syncPlayerTime\<close> in terms of the exact distance: the rounded distance
  is above the margin 1 exactly when the exact one is above \<open>1 + 2\<^sup>-\<^sup>5\<^sup>3\<close>; a distance
  that a binary64 number denotes passes the test exactly when it is above 1.
\<close>

lemma margin_test_exact:
  "jsnum_gt (Math_abs (jsnum_minus (Fin a) (Fin b))) (Fin 1) = (1 + 1 / 2 ^ 53 < \<bar>a - b\<bar>)"
  by (simp add: Math_abs_round64 round64_gt_one)

text \<open>
  The binary64 numbers nearest to 1.1 and to 0.1 are more than 1 apart, by less than
  \<open>2\<^sup>-\<^sup>5\<^sup>3\<close>: their difference rounds to 1 and does not pass the test.
\<close>

lemma margin_test_rounds_to_one:
  "round64 (11 / 10) = Fin (2476979795053773 / 2 ^ 51)"
  "round64 (1 / 10) = Fin (3602879701896397 / 2 ^ 55)"
  "1 < \<bar>2476979795053773 / 2 ^ 51 - 3602879701896397 / 2 ^ 55 :: real\<bar>"
  "\<not> jsnum_gt (Math_abs (jsnum_minus (Fin (2476979795053773 / 2 ^ 51))
         (Fin (3602879701896397 / 2 ^ 55)))) (Fin 1)"
proof -
  show "round64 (11 / 10) = Fin (2476979795053773 / 2 ^ 51)"
    by (simp add: round64_simps) (simp add: roundHalfEven_def)
  show "round64 (1 / 10) = Fin (3602879701896397 / 2 ^ 55)"
    by (simp add: round64_simps) (simp add: roundHalfEven_def)
  show "1 < \<bar>2476979795053773 / 2 ^ 51 - 3602879701896397 / 2 ^ 55 :: real\<bar>"
    by simp
  show "\<not> jsnum_gt (Math_abs (jsnum_minus (Fin (2476979795053773 / 2 ^ 51))
         (Fin (3602879701896397 / 2 ^ 55)))) (Fin 1)"
    unfolding margin_test_exact by simp
qed



lemma halvings_full: "2 ^ k \<le> a \<Longrightarrow> halvings k a = k"
proof (induction k arbitrary: a)
  case 0
  show ?case by simp
next
  case (Suc k)
  then have "2 ^ k \<le> a / 2" by simp
  from Suc.IH [OF this] have h: "halvings k (a / 2) = k" .
  have "(2::real) \<le> 2 ^ Suc k" by simp
  with Suc.prems have "\<not> a < 2" by linarith
  with h show ?case by simp
qed

lemma nearest_lower:
  assumes "1 \<le> a"
  shows "2 ^ halvings 1024 a \<le> nearest a"
proof -
  define h where "h = halvings 1024 a"
  have b: "binade a = int h" using assms by (simp add: binade_def h_def)
  have "2 powi (int h) \<le> a" using assms by (simp add: h_def halvings_lower)
  then have "2 powi (int h) * 2 powi (52 - int h) \<le> a * 2 powi (52 - int h)"
    by (simp add: mult_right_mono)
  then have "2 powi (int h + (52 - int h)) \<le> a * 2 powi (52 - int h)"
    by (simp only: two_powi_add)
  then have "of_int (2 ^ 52) \<le> a * 2 powi (52 - int h)" by simp
  from roundHalfEven_ge [OF this]
  have "(2::real) powi 52 \<le> of_int (roundHalfEven (a * 2 powi (52 - int h)))"
    by (simp add: of_int_le_iff [symmetric] del: of_int_le_iff)
  then have "2 powi 52 * 2 powi (int h - 52) \<le> nearest a"
    by (simp add: nearest_def b mult_right_mono del: power_int_numeral)
  then have "2 powi (52 + (int h - 52)) \<le> nearest a"
    by (simp only: two_powi_add)
  then show ?thesis by (simp add: h_def)
qed

text \<open>A value of \<open>2 ^ 1024\<close> or more overflows; so does the literal \<open>1e400\<close>.\<close>

lemma round64_overflow:
  assumes "2 ^ 1024 \<le> a"
  shows "round64 a = PosInf"
proof -
  have "(1::real) \<le> 2 ^ 1024" by (rule one_le_power) simp
  from this assms have a1: "1 \<le> a" by (rule order_trans)
  have h: "halvings 1024 a = 1024" by (rule halvings_full [OF assms])
  have "2 ^ halvings 1024 a \<le> nearest a" by (rule nearest_lower [OF a1])
  then have "2 ^ 1024 \<le> nearest a" by (simp only: h)
  with a1 show ?thesis by (simp add: round64_def del: power_numeral)
qed

lemma parseFloat_overflow: "parseFloat ''1e400'' = PosInf"
proof -
  have "parseFloat ''1e400'' = round64 (10 ^ 400)"
    by (simp add: parseFloat_simps)
  also have "\<dots> = PosInf"
    by (rule round64_overflow) simp
  finally show ?thesis .
qed

section \<open>Margin reconciliation\<close>



section \<open>Requests leave the queue alone\<close>

text \<open>
  C2. The two local requests, \<open>sendWsRequestToAddToQueue(video)\<close> and the delete handler
  of a queue element, only append the outbound \<open>ADD_TO_QUEUE\<close>, respectively
  \<open>REMOVE_FROM_QUEUE\<close>, frame to what the socket has sent: the queue, like every other
  field, is what it was. The add request that \<open>onWsConnected\<close> issues leaves the queue
  alone as well.
\<close>

theorem requests_do_not_touch_queue:
  "sendWsRequestToAddToQueue vid s =
     s\<lparr>ws := (ws s)\<lparr>sent := sent (ws s) @ [(ADD_TO_QUEUE, VideoData vid)]\<rparr>\<rparr> \<and>
   queueItemsElement (sendWsRequestToAddToQueue vid s) = queueItemsElement s \<and>
   queueElementDeleteHandler vId s =
     s\<lparr>ws := (ws s)\<lparr>sent := sent (ws s) @ [(REMOVE_FROM_QUEUE, StringData vId)]\<rparr>\<rparr> \<and>
   queueItemsElement (queueElementDeleteHandler vId s) = queueItemsElement s \<and>
   queueItemsElement (onWsConnected vid s) = queueItemsElement s"
  by (simp add: sendWsRequestToAddToQueue_def queueElementDeleteHandler_def sendWsMessage_def
        onWsConnected_def setAutoplay_def Let_def)

section \<open>Malformed frames\<close>

text \<open>
  C3, as the code has it. No exception leaves \<open>onWsMessage\<close>, whatever the frame. A
  frame that does not parse, or parses to \<open>null\<close>, is logged and changes nothing else;
  a frame with an unknown action changes nothing (a missing player apart, which is
  logged). A \<open>PLAY\<close>, \<open>PAUSE\<close>
  or \<open>SEEK\<close> whose payload is not a number is not discarded: \<open>PLAY\<close> and \<open>PAUSE\<close>
  issue no seek, but still start a paused engine, respectively pause a playing one, and
  \<open>SEEK\<close> calls \<open>seekTo\<close> with \<open>NaN\<close>.
\<close>

theorem malformed_frames_fail_soft:
  "(\<exists>s1. onWsMessage message s = Inr s1) \<and>
   onWsMessage Unparseable s = Inr (s\<lparr>console := console s @ [SyntaxError]\<rparr>) \<and>
   onWsMessage JsonNull s = Inr (s\<lparr>console := console s @ [TypeError]\<rparr>) \<and>
   onWsMessage (Json OtherMsg) s =
     Inr (if ytPlayer s = None then s\<lparr>console := console s @ [TypeError]\<rparr> else s) \<and>
   (ytPlayer s = Some p \<and> parseFloat data = NaN \<longrightarrow>
      onWsMessage (Json (PlayMsg data)) s =
        Inr (s\<lparr>ytPlayer := Some (p\<lparr>calls := calls p
               @ (if getPlayerState p = PAUSED then [PlayVideo] else [])\<rparr>)\<rparr>) \<and>
      onWsMessage (Json (PauseMsg data)) s =
        Inr (s\<lparr>ytPlayer := Some (p\<lparr>calls := calls p
               @ (if getPlayerState p = PLAYING then [PauseVideo] else [])\<rparr>)\<rparr>) \<and>
      onWsMessage (Json (SeekMsg data)) s =
        Inr (s\<lparr>ytPlayer := Some (p\<lparr>calls := calls p @ [SeekTo NaN True]\<rparr>)\<rparr>))"
proof -
  have a: "\<exists>s1. onWsMessage message s = Inr s1"
    by (simp add: onWsMessage_def split: sum.split)
  have b: "onWsMessage Unparseable s = Inr (s\<lparr>console := console s @ [SyntaxError]\<rparr>) \<and>
      onWsMessage JsonNull s = Inr (s\<lparr>console := console s @ [TypeError]\<rparr>)"
    by (simp add: handler_simps)
  have c: "onWsMessage (Json OtherMsg) s =
     Inr (if ytPlayer s = None then s\<lparr>console := console s @ [TypeError]\<rparr> else s)"
    by (cases "ytPlayer s") (simp_all add: handler_simps)
  have d: "ytPlayer s = Some p \<and> parseFloat data = NaN \<longrightarrow>
      onWsMessage (Json (PlayMsg data)) s =
        Inr (s\<lparr>ytPlayer := Some (p\<lparr>calls := calls p
               @ (if getPlayerState p = PAUSED then [PlayVideo] else [])\<rparr>)\<rparr>) \<and>
      onWsMessage (Json (PauseMsg data)) s =
        Inr (s\<lparr>ytPlayer := Some (p\<lparr>calls := calls p
               @ (if getPlayerState p = PLAYING then [PauseVideo] else [])\<rparr>)\<rparr>) \<and>
      onWsMessage (Json (SeekMsg data)) s =
        Inr (s\<lparr>ytPlayer := Some (p\<lparr>calls := calls p @ [SeekTo NaN True]\<rparr>)\<rparr>)"
    by (simp add: handler_simps)
  from a b c d show ?thesis by blast
qed

text \<open>
  On the paused example player: \<open>null\<close> and an unparseable frame are caught and
  logged, an unknown action and \<open>PAUSE("abc")\<close> change nothing.
\<close>

theorem malformed_frames_fail_soft_witness:
  "(\<exists>s1. onWsMessage (Json (PlayMsg ''abc'')) example_player = Inr s1) \<and>
   onWsMessage JsonNull example_player = Inr (example_player\<lparr>console := [TypeError]\<rparr>) \<and>
   onWsMessage Unparseable example_player = Inr (example_player\<lparr>console := [SyntaxError]\<rparr>) \<and>
   onWsMessage (Json OtherMsg) example_player = Inr example_player \<and>
   ytPlayer example_player = Some example_engine \<and> parseFloat ''abc'' = NaN \<and>
   onWsMessage (Json (PauseMsg ''abc'')) example_player = Inr example_player"
proof -
  have h: "ytPlayer example_player = Some example_engine \<and> parseFloat ''abc'' = NaN"
    by (simp add: example_player_def parseFloat_simps)
  from malformed_frames_fail_soft
         [of "Json (PlayMsg ''abc'')" example_player example_engine "''abc''"] h
  show ?thesis
    by (simp add: example_simps)
qed

text \<open>
  C3 as stated fails: on the paused example player, the frame \<open>PLAY\<close> with the payload
  \<open>"abc"\<close> is not a no-op, for the handler starts the engine; and \<open>SEEK\<close> with that
  payload calls \<open>seekTo(NaN, true)\<close>.
\<close>

theorem non_numeric_play_still_plays:
  "parseFloat ''abc'' = NaN \<and>
   onWsMessage (Json (PlayMsg ''abc'')) example_player =
     Inr (example_player\<lparr>ytPlayer := Some (example_engine\<lparr>calls := [PlayVideo]\<rparr>)\<rparr>) \<and>
   onWsMessage (Json (PlayMsg ''abc'')) example_player \<noteq> Inr example_player \<and>
   onWsMessage (Json (SeekMsg ''abc'')) example_player =
     Inr (example_player\<lparr>ytPlayer := Some (example_engine\<lparr>calls := [SeekTo NaN True]\<rparr>)\<rparr>)"
  by (simp add: handler_simps parseFloat_simps example_simps)

section \<open>Inbound autoplay\<close>

text \<open>
  C4, as the code has it. An inbound \<open>AUTOPLAY(b)\<close> that differs from the local flag sets
  the flag and the toggle to \<open>b\<close> and sends an outbound \<open>AUTOPLAY(b)\<close>; one that equals
  the flag changes nothing and sends nothing.
\<close>

theorem inbound_autoplay_sets_and_echoes:
  assumes "ytPlayer s = Some p"
  shows "onWsMessage (Json (AutoplayMsg b)) s =
     Inr (if autoplay s = b then s
          else s\<lparr>autoplay := b,
                 roomInfoElement := (roomInfoElement s)\<lparr>autoplayToggle := Some b\<rparr>,
                 ws := (ws s)\<lparr>sent := sent (ws s) @ [(AUTOPLAY, BoolData b)]\<rparr>\<rparr>)"
  using assms
  by (simp add: handler_simps setAutoplay_def setPapperToggleButtonState_def sendWsMessage_def)

theorem inbound_autoplay_sets_and_echoes_witness:
  "ytPlayer example_player = Some example_engine \<and>
   onWsMessage (Json (AutoplayMsg True)) example_player = Inr example_player"
proof -
  have h: "ytPlayer example_player = Some example_engine"
    by (simp add: example_player_def)
  have a: "autoplay example_player"
    by (simp add: example_player_def)
  from inbound_autoplay_sets_and_echoes [OF h, of True] h a show ?thesis by simp
qed

text \<open>
  C4 as stated fails: the example player has autoplay on and has sent nothing; after an
  inbound \<open>AUTOPLAY(false)\<close> the flag and the toggle are off, and the socket has sent an
  outbound \<open>AUTOPLAY(false)\<close>.
\<close>

theorem inbound_autoplay_emits_outbound:
  "autoplay example_player \<and> sent (ws example_player) = [] \<and>
   onWsMessage (Json (AutoplayMsg False)) example_player =
     Inr (example_player\<lparr>autoplay := False,
            roomInfoElement := (roomInfoElement example_player)\<lparr>autoplayToggle := Some False\<rparr>,
            ws := (ws example_player)\<lparr>sent := [(AUTOPLAY, BoolData False)]\<rparr>\<rparr>)"
  by (simp add: handler_simps setAutoplay_def setPapperToggleButtonState_def sendWsMessage_def
        example_simps)

section \<open>Inbound PLAY_VIDEO\<close>

lemma navigateToVideo_state:
  "navigateToVideo vId s =
     (if param_v (location s) = Some vId
      then (selectQueueElement vId s)\<lparr>upnext := False, related := False\<rparr>
      else (selectQueueElement vId s)
             \<lparr>navigations := navigations s @ [(vId, sessionId s)],
              location := \<lparr>param_v = Some vId, param_SessionId = Some (sessionId s)\<rparr>,
              upnext := False, related := False\<rparr>)"
  by (simp add: navigateToVideo_def selectQueueElement_def onYtNavigate_def
        removeUpnext_def removeRelated_def Let_def)

text \<open>
  C5, as the code has it. The handler of an inbound \<open>PLAY_VIDEO(videoId)\<close> sends nothing
  itself, and navigates unless the page is at the video already. When it has navigated,
  the next run of the URL schedule sees the new location and \<open>onUrlChange\<close> sends an
  outbound \<open>PLAY_VIDEO\<close> for that videoId; when it has not, the run sends nothing.
\<close>

theorem inbound_play_video_silent_then_echoed:
  assumes "ytPlayer s = Some p"
  shows "\<exists>s1. onWsMessage (Json (PlayVideoMsg vId)) s = Inr s1 \<and>
           ws s1 = ws s \<and>
           navigations s1 =
             (if param_v (location s) = Some vId then navigations s
              else navigations s @ [(vId, sessionId s)]) \<and>
           urlChangeSchedule_run (location s) s1 =
             (if param_v (location s) = Some vId then s1
              else sendWsMessage PLAY_VIDEO (StringData vId) s1)"
proof -
  have run: "onWsMessage (Json (PlayVideoMsg vId)) s = Inr (navigateToVideo vId s)"
    using assms by (simp add: handler_simps)
  show ?thesis
  proof (cases "param_v (location s) = Some vId")
    case True
    then show ?thesis
      by (simp add: run navigateToVideo_state selectQueueElement_def urlChangeSchedule_run_def)
  next
    case False
    then have "location s \<noteq> \<lparr>param_v = Some vId, param_SessionId = Some (sessionId s)\<rparr>"
      by auto
    with False show ?thesis
      by (simp add: run navigateToVideo_state selectQueueElement_def urlChangeSchedule_run_def
            onUrlChange_def)
  qed
qed

theorem inbound_play_video_silent_then_echoed_witness:
  "ytPlayer example_player = Some example_engine \<and>
   (\<exists>s1. onWsMessage (Json (PlayVideoMsg ''A'')) example_player = Inr s1 \<and>
      ws s1 = ws example_player \<and> navigations s1 = [] \<and>
      urlChangeSchedule_run (location example_player) s1 = s1)"
proof -
  have h: "ytPlayer example_player = Some example_engine"
    by (simp add: example_player_def)
  have a: "param_v (location example_player) = Some ''A''" "navigations example_player = []"
    by (simp_all add: example_player_def)
  from inbound_play_video_silent_then_echoed [OF h, of "''A''"] h a show ?thesis by simp
qed

text \<open>
  C5 as stated fails: the example player is at video \<open>A\<close>. The inbound \<open>PLAY_VIDEO("B")\<close>
  navigates to \<open>B\<close>; the run of the URL schedule that follows, which last saw the
  location of \<open>A\<close>, sends the outbound \<open>PLAY_VIDEO("B")\<close>.
\<close>

theorem inbound_play_video_feeds_back:
  "onWsMessage (Json (PlayVideoMsg ''B'')) example_player =
     Inr (example_player\<lparr>location := \<lparr>param_v = Some ''B'', param_SessionId = Some ''s1''\<rparr>,
            navigations := [(''B'', ''s1'')], upnext := False, related := False\<rparr>) \<and>
   sent (ws (urlChangeSchedule_run (location example_player)
      (example_player\<lparr>location := \<lparr>param_v = Some ''B'', param_SessionId = Some ''s1''\<rparr>,
            navigations := [(''B'', ''s1'')], upnext := False, related := False\<rparr>))) =
     [(PLAY_VIDEO, StringData ''B'')]"
  by (simp add: handler_simps navigateToVideo_state selectQueueElement_def
        urlChangeSchedule_run_def onUrlChange_def sendWsMessage_def example_simps)

section \<open>Queue snapshots\<close>

lemma addToQueue_foldl:
  "foldl (\<lambda>s' vid. addToQueue vid (f vid) s') s0 vs =
     s0\<lparr>queueItemsElement := queueItemsElement s0 @ map (\<lambda>vid. element_of vid (f vid)) vs\<rparr>"
proof (induction vs arbitrary: s0)
  case Nil
  show ?case by simp
next
  case (Cons v vs)
  show ?case
    by (simp add: Cons.IH)
       (simp add: addToQueue_def injectYtPlaylistPanelVideoRendererElement_def element_of_def)
qed

lemma populateQueue_state:
  "populateQueue data s =
     s\<lparr>queueItemsElement :=
         map (\<lambda>vid. element_of vid
                (case video data of None \<Rightarrow> False | Some cur \<Rightarrow> videoId vid = videoId cur))
           (videos data)\<rparr>"
  by (simp add: populateQueue_def addToQueue_foldl)

lemma find_selected_none:
  "(\<And>e. e \<in> set q \<Longrightarrow> \<not> attr_selected e) \<Longrightarrow> find_selected q = []"
  by (simp add: find_selected_def filter_empty_conv)

text \<open>
  C6. \<open>populateQueue\<close> replaces the queue by the elements of the snapshot, in order, each
  selected exactly when the snapshot's \<open>video\<close> is not \<open>null\<close> and has its videoId;
  nothing else of the state changes. The queue that results is the same from any two
  prior states, applying the snapshot twice is applying it once, and when the snapshot's
  \<open>video\<close> is \<open>null\<close> or has a videoId that no video of the list has, no element is
  selected.
\<close>

theorem snapshot_replaces_queue:
  "populateQueue data s =
     s\<lparr>queueItemsElement :=
         map (\<lambda>vid. element_of vid
                (case video data of None \<Rightarrow> False | Some cur \<Rightarrow> videoId vid = videoId cur))
           (videos data)\<rparr> \<and>
   queueItemsElement (populateQueue data s) = queueItemsElement (populateQueue data s') \<and>
   populateQueue data (populateQueue data s) = populateQueue data s \<and>
   ((video data = None \<or>
     (\<exists>cur. video data = Some cur \<and> videoId cur \<notin> videoId ` set (videos data))) \<longrightarrow>
    find_selected (queueItemsElement (populateQueue data s)) = [])"
proof -
  have "find_selected (queueItemsElement (populateQueue data s)) = []"
    if "video data = None \<or>
        (\<exists>cur. video data = Some cur \<and> videoId cur \<notin> videoId ` set (videos data))"
    using that
    by (intro find_selected_none) (auto simp: populateQueue_state element_of_def image_iff)
  then show ?thesis
    by (simp add: populateQueue_state)
qed

text \<open>
  On a player whose queue is \<open>A, B, A\<close>: the snapshot \<open>A, B\<close> with the absent video \<open>C\<close>
  selected leaves \<open>A, B\<close> with nothing selected; with \<open>B\<close> selected it leaves \<open>A, B\<close>
  with \<open>B\<close> selected.
\<close>

theorem snapshot_replaces_queue_witness:
  "video snapshot_absent = Some video_C \<and>
   videoId video_C \<notin> videoId ` set (videos snapshot_absent) \<and>
   queueItemsElement (populateQueue snapshot_absent queue_A_B_A) =
     [element_of video_A False, element_of video_B False] \<and>
   find_selected (queueItemsElement (populateQueue snapshot_absent queue_A_B_A)) = [] \<and>
   queueItemsElement (populateQueue snapshot_B queue_A_B_A) =
     [element_of video_A False, element_of video_B True]"
proof -
  have h: "video snapshot_absent = Some video_C \<and>
      videoId video_C \<notin> videoId ` set (videos snapshot_absent)"
    by (simp add: snapshot_absent_def video_A_def video_B_def video_C_def)
  have fs: "find_selected (queueItemsElement (populateQueue snapshot_absent queue_A_B_A)) = []"
    using snapshot_replaces_queue [of snapshot_absent queue_A_B_A queue_A_B_A] h by blast
  have e1: "queueItemsElement (populateQueue snapshot_absent queue_A_B_A) =
      [element_of video_A False, element_of video_B False]"
    using snapshot_replaces_queue [of snapshot_absent queue_A_B_A queue_A_B_A, THEN conjunct1]
    by (simp add: snapshot_absent_def video_A_def video_B_def video_C_def)
  have e2: "queueItemsElement (populateQueue snapshot_B queue_A_B_A) =
      [element_of video_A False, element_of video_B True]"
    using snapshot_replaces_queue [of snapshot_B queue_A_B_A queue_A_B_A, THEN conjunct1]
    by (simp add: snapshot_B_def video_A_def video_B_def)
  from h fs e1 e2 show ?thesis by simp
qed

section \<open>Advancing the queue\<close>

lemma find_selected_first:
  assumes "i < length q" and "attr_selected (q ! i)" and "\<forall>j<i. \<not> attr_selected (q ! j)"
  shows "get0 (find_selected q) = Some i"
proof -
  have parts: "[0..<length q] = [0..<i] @ i # [Suc i..<length q]"
    using assms(1)
    by (metis less_imp_le_nat upt_add_eq_append upt_conv_Cons le_add_diff_inverse zero_le)
  have "filter (\<lambda>k. attr_selected (q ! k)) [0..<i] = []"
    using assms(3) by (simp add: filter_empty_conv)
  with assms(2) show ?thesis
    by (simp add: find_selected_def parts get0_def)
qed

text \<open>
  Where \<open>playNextVideoInQueue\<close> reads \<open>children.get(index + 1)\<close>, the position is one of
  the queue.
\<close>

lemma next_position_in_range:
  assumes "index_of q (get0 (find_selected q)) \<noteq> int (length q) - 1"
  shows "0 \<le> index_of q (get0 (find_selected q)) + 1 \<and>
         index_of q (get0 (find_selected q)) + 1 < int (length q)"
proof (cases "find_selected q")
  case Nil
  with assms show ?thesis
    by (cases q) (auto simp: get0_def index_of_def)
next
  case (Cons i rest)
  then have "i \<in> set (find_selected q)"
    by simp
  then have "i < length q"
    by (simp add: find_selected_def)
  with assms Cons show ?thesis
    by (simp add: get0_def index_of_def)
qed

text \<open>
  With no element selected, \<open>index\<close> is 0 on a queue that is not empty: a queue of one
  element is left alone, and on a longer one the player navigates to the second element.
\<close>

lemma playNext_without_selection:
  assumes "find_selected (queueItemsElement s) = []" and "queueItemsElement s \<noteq> []"
  shows "playNextVideoInQueue s =
           (if length (queueItemsElement s) = 1 then s
            else navigateToVideo (attr_videoId (queueItemsElement s ! 1)) s)"
proof -
  have "(0 = int (length (queueItemsElement s)) - 1) = (length (queueItemsElement s) = 1)"
    by auto
  with assms show ?thesis
    by (simp add: playNextVideoInQueue_def get0_def index_of_def)
qed

text \<open>
  C7, as the code has it. On an empty queue \<open>playNextVideoInQueue\<close> does nothing. When
  the first selected element is at position \<open>i\<close>, it does nothing if that is the last
  position, and otherwise navigates to the video of the element at position \<open>i + 1\<close>.
\<close>

theorem playNext_from_selected:
  "(queueItemsElement s = [] \<longrightarrow> playNextVideoInQueue s = s) \<and>
   (i < length (queueItemsElement s) \<and> attr_selected (queueItemsElement s ! i) \<and>
    (\<forall>j<i. \<not> attr_selected (queueItemsElement s ! j)) \<longrightarrow>
      playNextVideoInQueue s =
        (if i = length (queueItemsElement s) - 1 then s
         else navigateToVideo (attr_videoId (queueItemsElement s ! (i + 1))) s))"
proof (intro conjI impI)
  assume "queueItemsElement s = []"
  then show "playNextVideoInQueue s = s"
    by (simp add: playNextVideoInQueue_def find_selected_def get0_def index_of_def)
next
  assume a: "i < length (queueItemsElement s) \<and> attr_selected (queueItemsElement s ! i) \<and>
    (\<forall>j<i. \<not> attr_selected (queueItemsElement s ! j))"
  then have "get0 (find_selected (queueItemsElement s)) = Some i"
    by (simp add: find_selected_first)
  moreover have "(int i = int (length (queueItemsElement s)) - 1) =
      (i = length (queueItemsElement s) - 1)"
    using a by auto
  moreover have "nat (int i + 1) = i + 1"
    by simp
  ultimately show "playNextVideoInQueue s =
        (if i = length (queueItemsElement s) - 1 then s
         else navigateToVideo (attr_videoId (queueItemsElement s ! (i + 1))) s)"
    by (simp add: playNextVideoInQueue_def index_of_def Let_def)
qed

text \<open>
  On the empty queue of the example player nothing happens; on the queue \<open>A, B, C\<close> with
  \<open>B\<close> selected the player navigates to \<open>C\<close>.
\<close>

theorem playNext_from_selected_witness:
  "queueItemsElement example_player = [] \<and> playNextVideoInQueue example_player = example_player \<and>
   (1::nat) < length (queueItemsElement queue_A_B_C) \<and>
   attr_selected (queueItemsElement queue_A_B_C ! 1) \<and>
   \<not> attr_selected (queueItemsElement queue_A_B_C ! 0) \<and>
   playNextVideoInQueue queue_A_B_C = navigateToVideo ''C'' queue_A_B_C"
proof -
  have h0: "queueItemsElement example_player = []"
    by (simp add: example_player_def)
  have h1: "(1::nat) < length (queueItemsElement queue_A_B_C) \<and>
      attr_selected (queueItemsElement queue_A_B_C ! 1) \<and>
      (\<forall>j<1. \<not> attr_selected (queueItemsElement queue_A_B_C ! j))"
    by (simp add: queue_A_B_C_def element_of_def)
  have q: "queueItemsElement queue_A_B_C ! Suc (Suc 0) = element_of video_C False"
      "length (queueItemsElement queue_A_B_C) = 3"
    by (simp_all add: queue_A_B_C_def)
  from playNext_from_selected [of example_player 1] h0
  have r0: "playNextVideoInQueue example_player = example_player"
    by blast
  from playNext_from_selected [of queue_A_B_C 1] h1 q
  have r1: "playNextVideoInQueue queue_A_B_C = navigateToVideo ''C'' queue_A_B_C"
    by (simp add: element_of_def video_C_def)
  from h0 h1 r0 r1 show ?thesis by simp
qed

text \<open>
  C7 as stated fails where no element is selected: on the queue \<open>A, B\<close> with nothing
  selected, \<open>index\<close> is 0, not the last position, and the player selects and navigates
  to \<open>B\<close>.
\<close>

theorem playNext_nothing_selected_navigates:
  "find_selected (queueItemsElement two_unselected) = [] \<and>
   playNextVideoInQueue two_unselected =
     two_unselected\<lparr>queueItemsElement := [element_of video_A False, element_of video_B True],
       location := \<lparr>param_v = Some ''B'', param_SessionId = Some ''s1''\<rparr>,
       navigations := [(''B'', ''s1'')], upnext := False, related := False\<rparr> \<and>
   playNextVideoInQueue two_unselected \<noteq> two_unselected"
  by (simp add: playNextVideoInQueue_def find_selected_def get0_def index_of_def
        navigateToVideo_state selectQueueElement_def two_unselected_def example_simps)

section \<open>Removing from the queue\<close>

text \<open>
  What \<open>removeFromQueue\<close> does with the videoId string: the string itself is not
  looked at; the elements removed are those whose videoId is the text \<open>undefined\<close>.
\<close>

lemma removeFromQueue_id_string:
  "removeFromQueue (IdString vId) s =
     s\<lparr>queueItemsElement :=
         filter (\<lambda>e. attr_videoId e \<noteq> ''undefined'') (queueItemsElement s)\<rparr>"
  by (simp add: removeFromQueue_def property_videoId_def template_text_def)

text \<open>
  What it does with a video object: every element that has the videoId of the video is
  removed, the elements with another videoId stay as they were and in order, and the
  queue is shorter by the number of matches; on the queue \<open>A, B, A\<close> the video \<open>A\<close>
  leaves \<open>B\<close>.
\<close>

lemma removeFromQueue_video_object:
  "videoId vid \<notin> attr_videoId ` set (queueItemsElement (removeFromQueue (VideoObject vid) s)) \<and>
   filter (\<lambda>e. attr_videoId e \<noteq> videoId vid)
       (queueItemsElement (removeFromQueue (VideoObject vid) s)) =
     filter (\<lambda>e. attr_videoId e \<noteq> videoId vid) (queueItemsElement s) \<and>
   length (queueItemsElement (removeFromQueue (VideoObject vid) s)) +
     length (filter (\<lambda>e. attr_videoId e = videoId vid) (queueItemsElement s)) =
     length (queueItemsElement s)"
proof -
  have len: "length (filter (\<lambda>e. attr_videoId e \<noteq> videoId vid) q) +
      length (filter (\<lambda>e. attr_videoId e = videoId vid) q) = length q" for q :: "QueueElement list"
    using sum_length_filter_compl [of "\<lambda>e. attr_videoId e = videoId vid" q] by simp
  have gone: "videoId vid \<notin> attr_videoId ` set (filter (\<lambda>e. attr_videoId e \<noteq> videoId vid) q)"
    for q :: "QueueElement list"
    by (auto simp: image_iff)
  from len gone [of "queueItemsElement s"] show ?thesis
    by (simp add: removeFromQueue_def property_videoId_def template_text_def)
qed

lemma removeFromQueue_video_object_duplicates:
  "onWsMessage (Json (RemoveFromQueueMsg (VideoObject video_A))) queue_A_B_A =
     Inr (queue_A_B_A\<lparr>queueItemsElement := [element_of video_B False]\<rparr>)"
  by (simp add: handler_simps removeFromQueue_def property_videoId_def template_text_def
        queue_A_B_A_def example_simps)

text \<open>
  C8. The code does not do what the statement says. On the queue \<open>A, B, A\<close>, the
  inbound \<open>REMOVE_FROM_QUEUE\<close> whose data is the videoId \<open>A\<close> removes nothing: the
  queue still has its three elements, the first of them \<open>A\<close>, and the whole state is
  what it was.
\<close>

theorem remove_by_wire_id_removes_nothing:
  "onWsMessage (Json (RemoveFromQueueMsg (IdString ''A''))) queue_A_B_A = Inr queue_A_B_A \<and>
   queueItemsElement queue_A_B_A =
     [element_of video_A False, element_of video_B False, element_of video_A False] \<and>
   videoId video_A = ''A''"
  by (simp add: handler_simps removeFromQueue_id_string queue_A_B_A_def example_simps)

section \<open>Connecting a known client\<close>

text \<open>
  C9. When the socketId of \<open>c\<close> is in the roster, \<open>addClients([c])\<close>, which is what an
  inbound \<open>CLIENT_CONNECT\<close> runs, adds nothing: the roster and its size are what they
  were, and so are the participant entries; all it does is write the description
  \<open>Connected (n)\<close> again, with the unchanged size \<open>n\<close>.
\<close>

theorem connect_known_socket_is_noop:
  assumes "socketId c \<in> socketId ` set (clients s)"
  shows "clients (addClients [c] s) = clients s \<and>
         length (clients (addClients [c] s)) = length (clients s) \<and>
         items (roomInfoElement (addClients [c] s)) = items (roomInfoElement s) \<and>
         addClients [c] s =
           s\<lparr>roomInfoElement :=
               (roomInfoElement s)\<lparr>description := Connected (length (clients s))\<rparr>\<rparr> \<and>
         (ytPlayer s \<noteq> None \<longrightarrow>
            onWsMessage (Json (ClientConnectMsg c)) s = Inr (addClients [c] s))"
proof -
  have run: "ytPlayer s \<noteq> None \<longrightarrow>
      onWsMessage (Json (ClientConnectMsg c)) s = Inr (addClients [c] s)"
    by (auto simp: handler_simps)
  from assms run show ?thesis
    by (simp add: addClients_def changeYtPlaylistPanelRendererDescription_def Let_def)
qed

text \<open>
  With one client in the roster, a second \<open>CLIENT_CONNECT\<close> for its socketId leaves the
  player exactly as it was.
\<close>

theorem connect_known_socket_is_noop_witness:
  "socketId (client_1\<lparr>promoted := True\<rparr>) \<in> socketId ` set (clients one_client) \<and>
   ytPlayer one_client \<noteq> None \<and>
   onWsMessage (Json (ClientConnectMsg (client_1\<lparr>promoted := True\<rparr>))) one_client =
     Inr one_client"
proof -
  have h: "socketId (client_1\<lparr>promoted := True\<rparr>) \<in> socketId ` set (clients one_client)"
    by (simp add: one_client_def)
  have p: "ytPlayer one_client \<noteq> None"
    by (simp add: one_client_def example_player_def)
  have d: "one_client\<lparr>roomInfoElement :=
      (roomInfoElement one_client)\<lparr>description := Connected (length (clients one_client))\<rparr>\<rparr> =
      one_client"
    by (simp add: one_client_def)
  from connect_known_socket_is_noop [OF h] h p d show ?thesis by simp
qed

section \<open>Creating twice\<close>

text \<open>
  C10. Once \<open>ytPlayer\<close> is set, \<open>create\<close> returns at once and the state is what it was:
  no engine is looked up or constructed, no panel injected, no schedule started and no
  socket opened. A \<open>create\<close> that has returned has set \<open>ytPlayer\<close>, so that a second
  call after it changes nothing. This holds for the current \<open>create\<close> and for the
  earlier one.
\<close>

theorem create_again_is_noop:
  "(ytPlayer s \<noteq> None \<longrightarrow>
      create session s = Inr s \<and> create_earlier constructed vId session s = s) \<and>
   (create session s = Inr s1 \<longrightarrow> create session2 s1 = Inr s1) \<and>
   create_earlier constructed2 vId2 session2 (create_earlier constructed vId session s) =
     create_earlier constructed vId session s"
proof -
  have guard: "ytPlayer s \<noteq> None \<longrightarrow>
      create session s = Inr s \<and> create_earlier constructed vId session s = s"
    by (simp add: create_def create_earlier_def)
  have second: "create session s = Inr s1 \<longrightarrow> create session2 s1 = Inr s1"
  proof
    assume "create session s = Inr s1"
    then have "ytPlayer s1 \<noteq> None"
      by (auto simp: create_def connectWs_def Let_def split: if_splits option.splits)
    then show "create session2 s1 = Inr s1"
      by (simp add: create_def)
  qed
  have earlier: "create_earlier constructed2 vId2 session2
      (create_earlier constructed vId session s) = create_earlier constructed vId session s"
    by (simp add: create_earlier_def Let_def)
  from guard second earlier show ?thesis by blast
qed

text \<open>
  On the example player, which is created, a further \<open>create\<close> changes nothing. On the
  fresh player the first \<open>create\<close> takes the engine of the page, starts the three
  schedules and connects; the second changes nothing.
\<close>

theorem create_again_is_noop_witness:
  "ytPlayer example_player \<noteq> None \<and>
   create ''s2'' example_player = Inr example_player \<and>
   create_earlier example_engine ''B'' ''s2'' example_player = example_player \<and>
   create ''s1'' fresh_player =
     Inr (example_player\<lparr>ytPlayer :=
            Some (example_engine\<lparr>calls := [AddEventListener ''onStateChange'']\<rparr>)\<rparr>) \<and>
   create ''s2'' (example_player\<lparr>ytPlayer :=
            Some (example_engine\<lparr>calls := [AddEventListener ''onStateChange'']\<rparr>)\<rparr>) =
     Inr (example_player\<lparr>ytPlayer :=
            Some (example_engine\<lparr>calls := [AddEventListener ''onStateChange'']\<rparr>)\<rparr>)"
proof -
  have h: "ytPlayer example_player \<noteq> None"
    by (simp add: example_player_def)
  have first: "create ''s1'' fresh_player =
     Inr (example_player\<lparr>ytPlayer :=
            Some (example_engine\<lparr>calls := [AddEventListener ''onStateChange'']\<rparr>)\<rparr>)"
    by (simp add: create_def getPlayer_def connectWs_def addEventListener_def
          injectEmptyQueueShell_def fresh_player_def example_simps)
  from create_again_is_noop [of example_player "''s2''" example_engine "''B''"] h
  have again: "create ''s2'' example_player = Inr example_player \<and>
      create_earlier example_engine ''B'' ''s2'' example_player = example_player"
    by blast
  from create_again_is_noop [of fresh_player "''s1''" _ _ _ "''s2''"] first
  have second: "create ''s2'' (example_player\<lparr>ytPlayer :=
            Some (example_engine\<lparr>calls := [AddEventListener ''onStateChange'']\<rparr>)\<rparr>) =
     Inr (example_player\<lparr>ytPlayer :=
            Some (example_engine\<lparr>calls := [AddEventListener ''onStateChange'']\<rparr>)\<rparr>)"
    by blast
  from h first again second show ?thesis by blast
qed

end
